theory Spec2Isabelle
  imports Complex_Main
begin

section \<open>The bracket order lifecycle of MeanReversionSpyRsiKr\<close>

text \<open>
  The algorithm class of \<^verbatim>\<open>Algorithm.Python/MeanReversionSpyRsiKr.py\<close> keeps three
  tracking fields (entry price, stop-loss ticket, profit-target ticket) and reacts to two
  callbacks of its host: \<^verbatim>\<open>OnData\<close> and \<^verbatim>\<open>OnOrderEvent\<close>. Each callback is modelled
  as a function from what the host shows during the call and the tracking fields before
  the call to the tracking fields after it and the list of requests made to the host, in
  the order of the calls. Prices and quantities are numbers of the host, seen from
  Python as floats; a finite float is modelled by the real it denotes, and the arithmetic
  on prices rounds as Python's does. Calls of \<^verbatim>\<open>self.Log\<close> only write text and are left out.
\<close>

subsection \<open>Data of the host\<close>

datatype OrderStatus =
  New | Submitted | PartiallyFilled | Filled | Canceled | NoStatus
  | Invalid | CancelPending | UpdateSubmitted | Error

datatype OrderType = Market | Limit | StopMarket | StopLimit | MarketOnOpen | MarketOnClose

datatype OrderDirection = Buy | Sell | Hold

record Order =
  Symbol :: string
  Type :: OrderType
  Direction :: OrderDirection

record OrderTicket =
  ticket_OrderId :: int

record OrderEvent =
  OrderId :: int
  Status :: OrderStatus
  FillPrice :: real
  FillQuantity :: real

text \<open>
  Modelled from the spec: the host's order event type is not part of the repository.
  The absolute fill quantity is the magnitude of the (signed) filled quantity.
\<close>

definition AbsoluteFillQuantity :: "OrderEvent \<Rightarrow> real" where
  "AbsoluteFillQuantity ev = \<bar>FillQuantity ev\<bar>"

text \<open>
  Modelled from the spec: the host's holding type is not part of the repository. A
  holding is the signed quantity held; it is long, short or flat by the sign, and
  invested when not flat.
\<close>

record SecurityHolding =
  Quantity :: real

definition Invested :: "SecurityHolding \<Rightarrow> bool" where
  "Invested h = (Quantity h \<noteq> 0)"

definition IsLong :: "SecurityHolding \<Rightarrow> bool" where
  "IsLong h = (Quantity h > 0)"

definition IsShort :: "SecurityHolding \<Rightarrow> bool" where
  "IsShort h = (Quantity h < 0)"

record Indicator =
  IsReady :: bool
  Current_Value :: real

record TradeBar =
  Close :: real

type_synonym Slice = "string \<rightharpoonup> TradeBar option"

text \<open>
  A slice maps a symbol to its bar: no entry when the slice does not contain the key,
  \<open>Some None\<close> when the key is there and the value is None.

  The record \<open>host\<close> is what the host answers while one callback runs: the warm-up
  flag, the three indicators, the holding of SPY, the sizing helper, the order book
  lookup, the tickets returned by the two bracket submissions (\<open>None\<close> when no ticket
  is returned) and whether the order behind a ticket is still active. A callback submits
  at most one stop order and one limit order, so one answer for each is all it can see.
  The callbacks run one at a time: a request does not call back into the algorithm
  before the callback that made it has returned.
\<close>

record host =
  IsWarmingUp :: bool
  rsi :: Indicator
  atr :: Indicator
  kr :: Indicator
  Portfolio_SPY :: SecurityHolding
  CalculateOrderQuantity :: "real \<Rightarrow> real"
  GetOrderById :: "int \<Rightarrow> Order option"
  StopMarketOrder_ticket :: "OrderTicket option"
  LimitOrder_ticket :: "OrderTicket option"
  IsActive :: "OrderTicket \<Rightarrow> bool"

subsection \<open>Float arithmetic\<close>

text \<open>
  Python's \<^verbatim>\<open>*\<close>, \<^verbatim>\<open>+\<close> and \<^verbatim>\<open>-\<close> on floats give the exact result rounded to the
  nearest binary64 value, ties to the even significand, and an infinity when the rounded
  result is out of range. A finite value is \<open>m * 2 powi e\<close> with \<open>\<bar>m\<bar> < 2 ^ 53\<close> and
  \<open>- 1074 \<le> e\<close>; \<open>ilog2\<close> finds the binary exponent of a positive number by halving
  and doubling (2200 steps cover every exponent that can matter), and \<open>round_float\<close>
  rounds at the 53rd significant bit, or at \<open>2 powi (- 1074)\<close> in the subnormal range.
  The operands here are finite (a fill price, the ATR, a literal), so a product is finite
  or an infinity and no NaN arises. The two zeros are not told apart.
\<close>

datatype pyfloat = Finite real | PosInf | NegInf

fun ilog2 :: "nat \<Rightarrow> real \<Rightarrow> int" where
  "ilog2 0 x = 0"
| "ilog2 (Suc n) x =
     (if 2 \<le> x then ilog2 n (x / 2) + 1
      else if x < 1 then ilog2 n (2 * x) - 1
      else 0)"

definition round_half_even :: "real \<Rightarrow> int" where
  "round_half_even x =
     (let f = \<lfloor>x\<rfloor>; d = x - of_int f
      in if d < 1 / 2 then f
         else if 1 / 2 < d then f + 1
         else if even f then f else f + 1)"

definition round_float :: "real \<Rightarrow> pyfloat" where
  "round_float x =
     (if x = 0 then Finite 0
      else
        let e = max (- 1074) (ilog2 2200 \<bar>x\<bar> - 52);
            y = of_int (round_half_even (x / 2 powi e)) * 2 powi e
        in if 2 powi 1024 \<le> y then PosInf
           else if y \<le> - (2 powi 1024) then NegInf
           else Finite y)"

definition float_mul :: "real \<Rightarrow> real \<Rightarrow> pyfloat" where
  "float_mul x y = round_float (x * y)"

definition float_add :: "real \<Rightarrow> pyfloat \<Rightarrow> pyfloat" where
  "float_add x p =
     (case p of Finite y \<Rightarrow> round_float (x + y) | PosInf \<Rightarrow> PosInf | NegInf \<Rightarrow> NegInf)"

definition float_sub :: "real \<Rightarrow> pyfloat \<Rightarrow> pyfloat" where
  "float_sub x p =
     (case p of Finite y \<Rightarrow> round_float (x - y) | PosInf \<Rightarrow> NegInf | NegInf \<Rightarrow> PosInf)"

text \<open>Requests made to the host, each with the arguments of the call.\<close>

datatype request =
  MarketOrder string real
  | StopMarketOrder string real pyfloat string
  | LimitOrder string real pyfloat string
  | Liquidate string string
  | Cancel OrderTicket string

datatype error = AttributeError

subsection \<open>The tracking fields and the parameters set by Initialize\<close>

record tracking =
  entry_price :: real
  stop_loss_order_ticket :: "OrderTicket option"
  profit_target_order_ticket :: "OrderTicket option"

definition Initialize :: tracking where
  "Initialize = \<lparr>entry_price = 0, stop_loss_order_ticket = None,
     profit_target_order_ticket = None\<rparr>"

definition spy_Symbol :: string where
  "spy_Symbol = ''SPY''"

definition rsi_oversold :: real where "rsi_oversold = 30"
definition rsi_overbought :: real where "rsi_overbought = 70"
definition rsi_exit_level :: real where "rsi_exit_level = 50"
definition atr_stop_multiplier :: real where "atr_stop_multiplier = 1.5"
definition atr_profit_multiplier :: real where "atr_profit_multiplier = 3.0"
definition portfolio_allocation :: real where "portfolio_allocation = 0.95"

subsection \<open>The methods\<close>

definition ResetTradeTracking :: "tracking \<Rightarrow> tracking" where
  "ResetTradeTracking s =
     s\<lparr>entry_price := 0, stop_loss_order_ticket := None,
       profit_target_order_ticket := None\<rparr>"

definition CancelStopLossAndProfitTarget :: "host \<Rightarrow> tracking \<Rightarrow> tracking \<times> request list" where
  "CancelStopLossAndProfitTarget h s =
     (let c1 = (case stop_loss_order_ticket s of
                  Some t \<Rightarrow> if IsActive h t then [Cancel t ''Position Closed Manually''] else []
                | None \<Rightarrow> []);
          c2 = (case profit_target_order_ticket s of
                  Some t \<Rightarrow> if IsActive h t then [Cancel t ''Position Closed Manually''] else []
                | None \<Rightarrow> [])
      in (ResetTradeTracking s, c1 @ c2))"

text \<open>
  The last check of the method reads the two ticket fields, whatever branch ran before:
  for a direction that is neither Buy nor Sell no order is submitted and the fields are
  as they were on entry.
\<close>

definition PlaceStopLossAndProfitTarget ::
  "host \<Rightarrow> tracking \<Rightarrow> OrderDirection \<Rightarrow> real \<Rightarrow> real \<Rightarrow> real \<Rightarrow> tracking \<times> request list" where
  "PlaceStopLossAndProfitTarget h s direction quantity entry current_atr =
     (if current_atr \<le> 0 then (s, [Liquidate ''SPY'' ''Invalid ATR for SL/PT''])
      else
        let close_quantity = (if direction = Buy then - quantity else quantity);
            (s1, rs1) =
              (if direction = Buy then
                 let stop_price = float_sub entry (float_mul atr_stop_multiplier current_atr);
                     target_price = float_add entry (float_mul atr_profit_multiplier current_atr)
                 in (s\<lparr>stop_loss_order_ticket := StopMarketOrder_ticket h,
                        profit_target_order_ticket := LimitOrder_ticket h\<rparr>,
                     [StopMarketOrder ''SPY'' close_quantity stop_price ''ATR SL'',
                      LimitOrder ''SPY'' close_quantity target_price ''ATR PT''])
               else if direction = Sell then
                 let stop_price = float_add entry (float_mul atr_stop_multiplier current_atr);
                     target_price = float_sub entry (float_mul atr_profit_multiplier current_atr)
                 in (s\<lparr>stop_loss_order_ticket := StopMarketOrder_ticket h,
                        profit_target_order_ticket := LimitOrder_ticket h\<rparr>,
                     [StopMarketOrder ''SPY'' close_quantity stop_price ''ATR SL'',
                      LimitOrder ''SPY'' close_quantity target_price ''ATR PT''])
               else (s, []))
        in if stop_loss_order_ticket s1 = None \<or> profit_target_order_ticket s1 = None
           then (ResetTradeTracking s1, rs1 @ [Liquidate ''SPY'' ''SL/PT Creation Failed''])
           else (s1, rs1))"

text \<open>
  \<^verbatim>\<open>OnOrderEvent\<close> looks the order up first; the lookup gives \<open>None\<close> for an unknown
  id, and reading an attribute of it raises. The Filled and the Invalid branches read
  the order, the Canceled branch does not.
\<close>

definition ticket_matches :: "OrderTicket option \<Rightarrow> OrderEvent \<Rightarrow> bool" where
  "ticket_matches t ev =
     (case t of None \<Rightarrow> False | Some k \<Rightarrow> OrderId ev = ticket_OrderId k)"

definition OnOrderEvent :: "host \<Rightarrow> tracking \<Rightarrow> OrderEvent \<Rightarrow> error + tracking \<times> request list" where
  "OnOrderEvent h s ev =
     (let order = GetOrderById h (OrderId ev) in
      if Status ev = Filled then
        (case order of
           None \<Rightarrow> Inl AttributeError
         | Some ord \<Rightarrow>
             if Symbol ord = spy_Symbol \<and> Type ord = Market \<and>
                stop_loss_order_ticket s = None \<and> profit_target_order_ticket s = None
             then
               (let position = Portfolio_SPY h in
                if (Direction ord = Buy \<and> IsLong position) \<or>
                   (Direction ord = Sell \<and> IsShort position)
                then
                  (let s1 = s\<lparr>entry_price := FillPrice ev\<rparr>;
                       fill_quantity = AbsoluteFillQuantity ev
                   in if IsReady (atr h)
                      then Inr (PlaceStopLossAndProfitTarget h s1 (Direction ord) fill_quantity
                                  (entry_price s1) (Current_Value (atr h)))
                      else Inr (s1, [Liquidate ''SPY'' ''ATR Not Ready on Fill'']))
                else Inr (s, []))
             else if ticket_matches (stop_loss_order_ticket s) ev then
               Inr (ResetTradeTracking s,
                    (case profit_target_order_ticket s of
                       Some t \<Rightarrow> [Cancel t ''Stop Loss Hit''] | None \<Rightarrow> []))
             else if ticket_matches (profit_target_order_ticket s) ev then
               Inr (ResetTradeTracking s,
                    (case stop_loss_order_ticket s of
                       Some t \<Rightarrow> [Cancel t ''Profit Target Hit''] | None \<Rightarrow> []))
             else Inr (s, []))
      else if Status ev = Canceled then
        (let s1 = (if ticket_matches (stop_loss_order_ticket s) ev
                   then s\<lparr>stop_loss_order_ticket := None\<rparr> else s);
             s2 = (if ticket_matches (profit_target_order_ticket s1) ev
                   then s1\<lparr>profit_target_order_ticket := None\<rparr> else s1);
             s3 = (if \<not> Invested (Portfolio_SPY h) then ResetTradeTracking s2 else s2)
         in Inr (s3, []))
      else if Status ev \<in> {Invalid, CancelPending, Error} then
        (case order of
           None \<Rightarrow> Inl AttributeError
         | Some ord \<Rightarrow>
             if Type ord = Market \<and> \<not> Invested (Portfolio_SPY h)
             then Inr (ResetTradeTracking s, [])
             else Inr (s, []))
      else Inr (s, []))"

text \<open>
  \<^verbatim>\<open>OnData\<close> returns early while warming up, when the slice has no bar of SPY, and
  while an indicator is not ready. The market orders are placed asynchronously and the
  ticket they return is dropped.
\<close>

definition OnData :: "host \<Rightarrow> tracking \<Rightarrow> Slice \<Rightarrow> tracking \<times> request list" where
  "OnData h s data =
     (if IsWarmingUp h then (s, [])
      else case data ''SPY'' of
        None \<Rightarrow> (s, [])
      | Some None \<Rightarrow> (s, [])
      | Some (Some bar) \<Rightarrow>
          if \<not> IsReady (rsi h) \<or> \<not> IsReady (atr h) \<or> \<not> IsReady (kr h) then (s, [])
          else
            let current_rsi = Current_Value (rsi h);
                current_kr = Current_Value (kr h);
                current_price = Close bar;
                position = Portfolio_SPY h
            in if \<not> Invested position then
                 (if current_rsi < rsi_oversold \<and> current_price < current_kr then
                    (let quantity = CalculateOrderQuantity h portfolio_allocation
                     in if quantity \<noteq> 0 then (s, [MarketOrder ''SPY'' quantity]) else (s, []))
                  else if current_rsi > rsi_overbought \<and> current_price > current_kr then
                    (let quantity = CalculateOrderQuantity h (- portfolio_allocation)
                     in if quantity \<noteq> 0 then (s, [MarketOrder ''SPY'' quantity]) else (s, []))
                  else (s, []))
               else
                 (if IsLong position \<and> current_rsi > rsi_exit_level then
                    (let (s1, rs) = CancelStopLossAndProfitTarget h s
                     in (s1, Liquidate ''SPY'' ''RSI Exit'' # rs))
                  else if IsShort position \<and> current_rsi < rsi_exit_level then
                    (let (s1, rs) = CancelStopLossAndProfitTarget h s
                     in (s1, Liquidate ''SPY'' ''RSI Exit'' # rs))
                  else (s, [])))"


subsection \<open>The derived controller state\<close>

datatype ControllerState = FLAT | ENTRY_PENDING | OPEN_UNBRACKETED | OPEN_BRACKETED

text \<open>
  Modelled from the spec: \<^verbatim>\<open>currentState\<close> is not in the source; the state is derived
  by the table of the data model from the position (here the host's holding of SPY) and
  the bracket pair (the two ticket fields). The source keeps no record of a submitted
  entry order, so whether one is pending is an argument. Combinations outside the table
  (one ticket only, tickets without a position) have no state.
\<close>

definition currentState :: "bool \<Rightarrow> SecurityHolding \<Rightarrow> tracking \<Rightarrow> ControllerState option" where
  "currentState entry_pending position s =
     (if stop_loss_order_ticket s = None \<and> profit_target_order_ticket s = None then
        (if Invested position then Some OPEN_UNBRACKETED
         else if entry_pending then Some ENTRY_PENDING else Some FLAT)
      else if stop_loss_order_ticket s \<noteq> None \<and> profit_target_order_ticket s \<noteq> None \<and>
              Invested position
      then Some OPEN_BRACKETED
      else None)"

subsection \<open>Concrete hosts and events of the scenarios\<close>

definition order_book :: "int \<Rightarrow> Order option" where
  "order_book i =
     (if i = 1 then Some \<lparr>Symbol = ''SPY'', Type = Market, Direction = Buy\<rparr>
      else if i = 2 then Some \<lparr>Symbol = ''SPY'', Type = StopMarket, Direction = Sell\<rparr>
      else if i = 3 then Some \<lparr>Symbol = ''SPY'', Type = Limit, Direction = Sell\<rparr>
      else if i = 4 then Some \<lparr>Symbol = ''SPY'', Type = Market, Direction = Sell\<rparr>
      else None)"

definition ticket2 :: OrderTicket where "ticket2 = \<lparr>ticket_OrderId = 2\<rparr>"
definition ticket3 :: OrderTicket where "ticket3 = \<lparr>ticket_OrderId = 3\<rparr>"

definition host_long :: host where
  "host_long =
     \<lparr>IsWarmingUp = False,
      rsi = \<lparr>IsReady = True, Current_Value = 25\<rparr>,
      atr = \<lparr>IsReady = True, Current_Value = 2\<rparr>,
      kr = \<lparr>IsReady = True, Current_Value = 105\<rparr>,
      Portfolio_SPY = \<lparr>Quantity = 10\<rparr>,
      CalculateOrderQuantity = (\<lambda>f. 1000 * f),
      GetOrderById = order_book,
      StopMarketOrder_ticket = Some ticket2,
      LimitOrder_ticket = Some ticket3,
      IsActive = (\<lambda>t. True)\<rparr>"

definition host_flat :: host where
  "host_flat = host_long\<lparr>Portfolio_SPY := \<lparr>Quantity = 0\<rparr>\<rparr>"

definition host_atr_not_ready :: host where
  "host_atr_not_ready = host_long\<lparr>atr := \<lparr>IsReady = False, Current_Value = 0\<rparr>\<rparr>"

definition host_limit_rejected :: host where
  "host_limit_rejected = host_long\<lparr>LimitOrder_ticket := None\<rparr>"

definition entry_fill :: OrderEvent where
  "entry_fill = \<lparr>OrderId = 1, Status = Filled, FillPrice = 100, FillQuantity = 10\<rparr>"

definition entry_fill_50 :: OrderEvent where
  "entry_fill_50 = \<lparr>OrderId = 1, Status = Filled, FillPrice = 50, FillQuantity = 10\<rparr>"

definition stop_fill :: OrderEvent where
  "stop_fill = \<lparr>OrderId = 2, Status = Filled, FillPrice = 96.8, FillQuantity = -10\<rparr>"

definition target_fill :: OrderEvent where
  "target_fill = \<lparr>OrderId = 3, Status = Filled, FillPrice = 106, FillQuantity = -10\<rparr>"

definition liquidation_fill :: OrderEvent where
  "liquidation_fill = \<lparr>OrderId = 4, Status = Filled, FillPrice = 101, FillQuantity = -10\<rparr>"

definition bracketed :: tracking where
  "bracketed = \<lparr>entry_price = 100, stop_loss_order_ticket = Some ticket2,
     profit_target_order_ticket = Some ticket3\<rparr>"

definition bar_100 :: Slice where
  "bar_100 = [''SPY'' \<mapsto> Some \<lparr>Close = 100\<rparr>]"

definition host_atr_zero :: host where
  "host_atr_zero = host_long\<lparr>atr := \<lparr>IsReady = True, Current_Value = 0\<rparr>\<rparr>"

definition host_atr_one :: host where
  "host_atr_one = host_long\<lparr>atr := \<lparr>IsReady = True, Current_Value = 1\<rparr>\<rparr>"

definition entry_fill_big :: OrderEvent where
  "entry_fill_big =
     \<lparr>OrderId = 1, Status = Filled, FillPrice = 10000000000000000, FillQuantity = 10\<rparr>"

definition host_stop_rejected :: host where
  "host_stop_rejected = host_long\<lparr>StopMarketOrder_ticket := None\<rparr>"

subsection \<open>Delivering an event twice\<close>

text \<open>
  The same event processed two times in a row, the host answering the same both times;
  the requests of the two calls follow each other.
\<close>

definition OnOrderEvent_twice :: "host \<Rightarrow> tracking \<Rightarrow> OrderEvent \<Rightarrow> error + tracking \<times> request list" where
  "OnOrderEvent_twice h s ev =
     (case OnOrderEvent h s ev of
        Inl e \<Rightarrow> Inl e
      | Inr (s1, r1) \<Rightarrow>
          (case OnOrderEvent h s1 ev of
             Inl e \<Rightarrow> Inl e
           | Inr (s2, r2) \<Rightarrow> Inr (s2, r1 @ r2)))"

text \<open>
  The tickets in play name bracket orders: the order behind a tracked ticket, and behind
  a ticket the host returns for a stop or limit submission, is not a market order.
\<close>

definition tickets_name_bracket_orders :: "host \<Rightarrow> tracking \<Rightarrow> bool" where
  "tickets_name_bracket_orders h s =
     (\<forall>t \<in> set_option (stop_loss_order_ticket s) \<union> set_option (profit_target_order_ticket s)
            \<union> set_option (StopMarketOrder_ticket h) \<union> set_option (LimitOrder_ticket h).
        case GetOrderById h (ticket_OrderId t) of
          None \<Rightarrow> True
        | Some ord \<Rightarrow> Type ord \<noteq> Market)"

lemmas scenario_defs =
  order_book_def ticket2_def ticket3_def host_long_def host_flat_def host_atr_not_ready_def
  host_limit_rejected_def entry_fill_def entry_fill_50_def stop_fill_def target_fill_def
  liquidation_fill_def bracketed_def bar_100_def host_atr_zero_def host_stop_rejected_def
  host_atr_one_def entry_fill_big_def

lemmas model_defs =
  OnOrderEvent_def OnData_def PlaceStopLossAndProfitTarget_def
  CancelStopLossAndProfitTarget_def ResetTradeTracking_def ticket_matches_def
  AbsoluteFillQuantity_def Invested_def IsLong_def IsShort_def spy_Symbol_def
  rsi_oversold_def rsi_overbought_def rsi_exit_level_def
  portfolio_allocation_def Initialize_def currentState_def

section \<open>Properties\<close>

subsection \<open>Rounding at a known exponent\<close>

lemma ilog2_eq:
  assumes "2 powi k \<le> x" and "x < 2 powi (k + 1)" and "nat \<bar>k\<bar> \<le> n"
  shows "ilog2 n x = k"
  using assms
proof (induction n arbitrary: x k)
  case 0
  then show ?case by simp
next
  case (Suc n)
  show ?case
  proof (cases "2 \<le> x")
    case True
    have "1 \<le> k"
    proof (rule ccontr)
      assume "\<not> 1 \<le> k"
      then have "k + 1 \<le> 1" by simp
      then have "(2::real) powi (k + 1) \<le> 2 powi 1" by (intro power_int_increasing) simp_all
      with Suc.prems(2) True show False by simp
    qed
    have a: "2 powi (k - 1) \<le> x / 2"
      using Suc.prems(1) by (simp add: power_int_diff)
    have b: "x / 2 < 2 powi (k - 1 + 1)"
      using Suc.prems(2) by (simp add: power_int_add)
    have c: "nat \<bar>k - 1\<bar> \<le> n" using Suc.prems(3) \<open>1 \<le> k\<close> by simp
    from Suc.IH [OF a b c] True show ?thesis by simp
  next
    case False
    show ?thesis
    proof (cases "x < 1")
      case True
      have "k \<le> - 1"
      proof (rule ccontr)
        assume "\<not> k \<le> - 1"
        then have "0 \<le> k" by simp
        then have "(2::real) powi 0 \<le> 2 powi k" by (intro power_int_increasing) simp_all
        with Suc.prems(1) True show False by simp
      qed
      have a: "2 powi (k + 1) \<le> 2 * x"
        using Suc.prems(1) by (simp add: power_int_add)
      have b: "2 * x < 2 powi (k + 1 + 1)"
        using Suc.prems(2) by (simp add: power_int_add)
      have c: "nat \<bar>k + 1\<bar> \<le> n" using Suc.prems(3) \<open>k \<le> - 1\<close> by simp
      from Suc.IH [OF a b c] True False show ?thesis by simp
    next
      case ge1: False
      have "k \<le> 0"
      proof (rule ccontr)
        assume "\<not> k \<le> 0"
        then have "1 \<le> k" by simp
        then have "(2::real) powi 1 \<le> 2 powi k" by (intro power_int_increasing) simp_all
        with Suc.prems(1) False show False by simp
      qed
      moreover have "0 \<le> k"
      proof (rule ccontr)
        assume "\<not> 0 \<le> k"
        then have "k + 1 \<le> 0" by simp
        then have "(2::real) powi (k + 1) \<le> 2 powi 0" by (intro power_int_increasing) simp_all
        with Suc.prems(2) ge1 show False by simp
      qed
      ultimately have "k = 0" by simp
      with False ge1 show ?thesis by simp
    qed
  qed
qed

lemma round_float_at:
  assumes "x \<noteq> 0" and "2 powi (e + 52) \<le> \<bar>x\<bar>" and "\<bar>x\<bar> < 2 powi (e + 53)"
    and "- 1074 \<le> e" and "e \<le> 1200"
  shows "round_float x =
     (let y = of_int (round_half_even (x / 2 powi e)) * 2 powi e
      in if 2 powi 1024 \<le> y then PosInf
         else if y \<le> - (2 powi 1024) then NegInf
         else Finite y)"
proof -
  have "ilog2 2200 \<bar>x\<bar> = e + 52"
    using assms by (intro ilog2_eq) (simp_all add: add.commute)
  with assms(1,4) show ?thesis by (simp add: round_float_def max_def)
qed

lemma round_float_values:
  "round_float 3 = Finite 3"
  "round_float 6 = Finite 6"
  "round_float 97 = Finite 97"
  "round_float 106 = Finite 106"
  "round_float (3 / 2) = Finite (3 / 2)"
  "round_float (19999999999999997 / 2) = Finite 9999999999999998"
  "round_float 10000000000000003 = Finite 10000000000000004"
proof -
  show "round_float 3 = Finite 3"
    by (subst round_float_at [where e = "- 51"])
       (simp_all add: round_half_even_def power_int_minus)
  show "round_float 6 = Finite 6"
    by (subst round_float_at [where e = "- 50"])
       (simp_all add: round_half_even_def power_int_minus)
  show "round_float 97 = Finite 97"
    by (subst round_float_at [where e = "- 46"])
       (simp_all add: round_half_even_def power_int_minus)
  show "round_float 106 = Finite 106"
    by (subst round_float_at [where e = "- 46"])
       (simp_all add: round_half_even_def power_int_minus)
  show "round_float (3 / 2) = Finite (3 / 2)"
    by (subst round_float_at [where e = "- 52"])
       (simp_all add: round_half_even_def power_int_minus)
  show "round_float (19999999999999997 / 2) = Finite 9999999999999998"
    by (subst round_float_at [where e = "1"])
       (simp_all add: round_half_even_def power_int_minus)
  show "round_float 10000000000000003 = Finite 10000000000000004"
    by (subst round_float_at [where e = "1"])
       (simp_all add: round_half_even_def power_int_minus)
qed

lemma scenario_prices:
  "float_sub 100 (float_mul atr_stop_multiplier 2) = Finite 97"
  "float_add 100 (float_mul atr_profit_multiplier 2) = Finite 106"
  "float_sub 10000000000000000 (float_mul atr_stop_multiplier 1) = Finite 9999999999999998"
  "float_add 10000000000000000 (float_mul atr_profit_multiplier 1) = Finite 10000000000000004"
  by (simp_all add: float_sub_def float_add_def float_mul_def atr_stop_multiplier_def
      atr_profit_multiplier_def round_float_values)

subsection \<open>Steps shared by the properties\<close>

lemma entry_fill_step:
  assumes "Status ev = Filled"
    and "GetOrderById h (OrderId ev) = Some ord"
    and "Symbol ord = spy_Symbol" and "Type ord = Market"
    and "stop_loss_order_ticket s = None" and "profit_target_order_ticket s = None"
    and "(Direction ord = Buy \<and> IsLong (Portfolio_SPY h)) \<or>
         (Direction ord = Sell \<and> IsShort (Portfolio_SPY h))"
  shows "OnOrderEvent h s ev =
           (if IsReady (atr h)
            then Inr (PlaceStopLossAndProfitTarget h (s\<lparr>entry_price := FillPrice ev\<rparr>)
                        (Direction ord) (AbsoluteFillQuantity ev) (FillPrice ev)
                        (Current_Value (atr h)))
            else Inr (s\<lparr>entry_price := FillPrice ev\<rparr>,
                      [Liquidate ''SPY'' ''ATR Not Ready on Fill'']))"
  using assms by (simp add: OnOrderEvent_def)

lemma cleared_fill_step:
  assumes "Status ev = Filled"
    and "GetOrderById h (OrderId ev) = Some ord"
    and "Type ord \<noteq> Market"
    and "stop_loss_order_ticket s = None" and "profit_target_order_ticket s = None"
  shows "OnOrderEvent h s ev = Inr (s, [])"
  using assms by (simp add: OnOrderEvent_def ticket_matches_def)

lemma reset_fields:
  "entry_price (ResetTradeTracking s) = 0"
  "stop_loss_order_ticket (ResetTradeTracking s) = None"
  "profit_target_order_ticket (ResetTradeTracking s) = None"
  by (simp_all add: ResetTradeTracking_def)

lemma place_buy:
  assumes "0 < a"
  shows "PlaceStopLossAndProfitTarget h s Buy q e a =
     (let s1 = s\<lparr>stop_loss_order_ticket := StopMarketOrder_ticket h,
                  profit_target_order_ticket := LimitOrder_ticket h\<rparr>;
          rs = [StopMarketOrder ''SPY'' (- q) (float_sub e (float_mul 1.5 a)) ''ATR SL'',
                LimitOrder ''SPY'' (- q) (float_add e (float_mul 3.0 a)) ''ATR PT'']
      in if StopMarketOrder_ticket h = None \<or> LimitOrder_ticket h = None
         then (ResetTradeTracking s1, rs @ [Liquidate ''SPY'' ''SL/PT Creation Failed''])
         else (s1, rs))"
  using assms
  by (simp add: PlaceStopLossAndProfitTarget_def atr_stop_multiplier_def
      atr_profit_multiplier_def Let_def)

lemma place_sell:
  assumes "0 < a"
  shows "PlaceStopLossAndProfitTarget h s Sell q e a =
     (let s1 = s\<lparr>stop_loss_order_ticket := StopMarketOrder_ticket h,
                  profit_target_order_ticket := LimitOrder_ticket h\<rparr>;
          rs = [StopMarketOrder ''SPY'' q (float_add e (float_mul 1.5 a)) ''ATR SL'',
                LimitOrder ''SPY'' q (float_sub e (float_mul 3.0 a)) ''ATR PT'']
      in if StopMarketOrder_ticket h = None \<or> LimitOrder_ticket h = None
         then (ResetTradeTracking s1, rs @ [Liquidate ''SPY'' ''SL/PT Creation Failed''])
         else (s1, rs))"
  using assms
  by (simp add: PlaceStopLossAndProfitTarget_def atr_stop_multiplier_def
      atr_profit_multiplier_def Let_def)

lemma place_ignores_holding:
  "PlaceStopLossAndProfitTarget (h\<lparr>Portfolio_SPY := p\<rparr>) s d q e a =
   PlaceStopLossAndProfitTarget h s d q e a"
  by (simp add: PlaceStopLossAndProfitTarget_def)

lemma canceled_step_again:
  assumes "Status ev = Canceled" and "OnOrderEvent h s ev = Inr (s1, r1)"
  shows "OnOrderEvent h s1 ev = Inr (s1, [])"
  using assms
  by (auto simp: OnOrderEvent_def ticket_matches_def ResetTradeTracking_def Let_def
      split: option.splits if_splits)

lemma failed_step_again:
  assumes st: "Status ev \<in> {Invalid, CancelPending, Error}"
    and run: "OnOrderEvent h s ev = Inr (s1, r1)"
  shows "OnOrderEvent h s1 ev = Inr (s1, [])"
proof -
  from st have ne: "Status ev \<noteq> Filled" "Status ev \<noteq> Canceled" by auto
  have step: "OnOrderEvent h s' ev =
      (case GetOrderById h (OrderId ev) of
         None \<Rightarrow> Inl AttributeError
       | Some ord \<Rightarrow>
           if Type ord = Market \<and> \<not> Invested (Portfolio_SPY h)
           then Inr (ResetTradeTracking s', [])
           else Inr (s', []))" for s'
    using st ne unfolding OnOrderEvent_def Let_def by (simp only: if_False if_True)
  from run show ?thesis
    unfolding step by (auto simp: ResetTradeTracking_def split: option.splits if_splits)
qed

lemma other_step_again:
  assumes "Status ev \<noteq> Filled" and "Status ev \<noteq> Canceled"
    and "Status ev \<notin> {Invalid, CancelPending, Error}"
    and "OnOrderEvent h s ev = Inr (s1, r1)"
  shows "OnOrderEvent h s1 ev = Inr (s1, [])"
  using assms by (auto simp: OnOrderEvent_def)

lemma leg_fill_step_again:
  assumes "Status ev = Filled"
    and "GetOrderById h (OrderId ev) = Some ord"
    and "\<not> (stop_loss_order_ticket s = None \<and> profit_target_order_ticket s = None)"
    and "tickets_name_bracket_orders h s"
    and "OnOrderEvent h s ev = Inr (s1, r1)"
  shows "OnOrderEvent h s1 ev = Inr (s1, [])"
proof (cases "ticket_matches (stop_loss_order_ticket s) ev
              \<or> ticket_matches (profit_target_order_ticket s) ev")
  case True
  with assms(1,2,3,5) have s1: "s1 = ResetTradeTracking s"
    by (auto simp: OnOrderEvent_def split: if_splits)
  from True assms(2,4) have "Type ord \<noteq> Market"
    by (auto simp: tickets_name_bracket_orders_def ticket_matches_def split: option.splits)
  with assms(1,2) show ?thesis
    unfolding s1 by (intro cleared_fill_step [of _ _ ord]) (simp_all add: reset_fields)
next
  case False
  with assms(1,2,3,5) have "s1 = s" "r1 = []"
    by (auto simp: OnOrderEvent_def split: if_splits)
  with assms(5) show ?thesis by simp
qed

lemma unmatched_fill_step_again:
  assumes "Status ev = Filled"
    and "GetOrderById h (OrderId ev) = Some ord"
    and "stop_loss_order_ticket s = None" and "profit_target_order_ticket s = None"
    and "\<not> (Symbol ord = spy_Symbol \<and> Type ord = Market \<and>
            ((Direction ord = Buy \<and> IsLong (Portfolio_SPY h)) \<or>
             (Direction ord = Sell \<and> IsShort (Portfolio_SPY h))))"
    and "OnOrderEvent h s ev = Inr (s1, r1)"
  shows "s1 = s \<and> r1 = []"
  using assms by (auto simp: OnOrderEvent_def ticket_matches_def split: if_splits)

lemma place_tickets:
  assumes "PlaceStopLossAndProfitTarget h s d q e a = (s1, r1)"
    and "stop_loss_order_ticket s = None" and "profit_target_order_ticket s = None"
  shows "(stop_loss_order_ticket s1 = None \<and> profit_target_order_ticket s1 = None)
       \<or> (stop_loss_order_ticket s1 = StopMarketOrder_ticket h
          \<and> profit_target_order_ticket s1 = LimitOrder_ticket h
          \<and> StopMarketOrder_ticket h \<noteq> None \<and> LimitOrder_ticket h \<noteq> None)"
  using assms
  by (auto simp: PlaceStopLossAndProfitTarget_def ResetTradeTracking_def Let_def
      split: if_splits)

lemma place_again:
  assumes "PlaceStopLossAndProfitTarget h s d q e a = (s1, r1)"
    and "stop_loss_order_ticket s = None" and "profit_target_order_ticket s = None"
    and "stop_loss_order_ticket s1 = None" and "profit_target_order_ticket s1 = None"
    and "entry_price s = e"
  shows "PlaceStopLossAndProfitTarget h (s1\<lparr>entry_price := e\<rparr>) d q e a = (s1, r1)"
  using assms
  by (auto simp: PlaceStopLossAndProfitTarget_def ResetTradeTracking_def Let_def
      split: if_splits)

subsection \<open>The claims\<close>

text \<open>
  C10. A Filled event of a market order that arrives while both ticket fields are absent
  and the holding does not match the order's direction changes no tracking field and
  makes no request. The fill of a liquidation order is such an event: it leaves the
  holding flat, and a flat holding matches no direction.
\<close>

theorem unmatched_market_fill_is_noop:
  assumes "Status ev = Filled"
    and "GetOrderById h (OrderId ev) = Some ord"
    and "Type ord = Market"
    and "stop_loss_order_ticket s = None"
    and "profit_target_order_ticket s = None"
  shows "(\<not> ((Direction ord = Buy \<and> IsLong (Portfolio_SPY h)) \<or>
              (Direction ord = Sell \<and> IsShort (Portfolio_SPY h)))
            \<longrightarrow> OnOrderEvent h s ev = Inr (s, []))
         \<and> (Quantity (Portfolio_SPY h) = 0 \<longrightarrow> OnOrderEvent h s ev = Inr (s, []))"
  using assms by (auto simp: OnOrderEvent_def ticket_matches_def IsLong_def IsShort_def)

theorem unmatched_market_fill_is_noop_witness:
  "OnOrderEvent host_flat Initialize liquidation_fill = Inr (Initialize, [])
   \<and> Quantity (Portfolio_SPY host_flat) = 0
   \<and> GetOrderById host_flat (OrderId liquidation_fill)
       = Some \<lparr>Symbol = ''SPY'', Type = Market, Direction = Sell\<rparr>"
  using unmatched_market_fill_is_noop
    [of liquidation_fill host_flat "\<lparr>Symbol = ''SPY'', Type = Market, Direction = Sell\<rparr>"
        Initialize]
  by (simp add: scenario_defs Initialize_def)





text \<open>
  C6, as stated: the stop and the limit price are E - 1.5 A and E + 3.0 A, and the state
  afterwards is OPEN_BRACKETED. The source computes the prices with floats: at
  E = 10000000000000000 and A = 1 the stop order goes out at 9999999999999998 and the
  limit order at 10000000000000004, not at 9999999999999998.5 and 10000000000000003.
  And when a submission returns no ticket (here the limit order, at E = 100 and A = 2)
  the tracking is reset and the state afterwards is not OPEN_BRACKETED.
\<close>

theorem bracket_prices_rounded_and_state_not_bracketed:
  "OnOrderEvent host_atr_one Initialize entry_fill_big =
     Inr (\<lparr>entry_price = 10000000000000000, stop_loss_order_ticket = Some ticket2,
           profit_target_order_ticket = Some ticket3\<rparr>,
          [StopMarketOrder ''SPY'' (- 10) (Finite 9999999999999998) ''ATR SL'',
           LimitOrder ''SPY'' (- 10) (Finite 10000000000000004) ''ATR PT''])
   \<and> FillPrice entry_fill_big - 1.5 * Current_Value (atr host_atr_one) \<noteq> 9999999999999998
   \<and> FillPrice entry_fill_big + 3.0 * Current_Value (atr host_atr_one) \<noteq> 10000000000000004
   \<and> OnOrderEvent host_limit_rejected Initialize entry_fill =
     Inr (Initialize,
          [StopMarketOrder ''SPY'' (- 10) (Finite 97) ''ATR SL'',
           LimitOrder ''SPY'' (- 10) (Finite 106) ''ATR PT'',
           Liquidate ''SPY'' ''SL/PT Creation Failed''])
   \<and> currentState False (Portfolio_SPY host_limit_rejected) Initialize \<noteq> Some OPEN_BRACKETED"
  by (simp add: scenario_defs model_defs scenario_prices)

text \<open>
  C6, amended. An entry fill at price E with the ATR ready at a positive value A submits,
  for a long entry, a stop order at E - 1.5 A and a limit order at E + 3.0 A, and for a
  short entry a stop order at E + 1.5 A and a limit order at E - 3.0 A, each product and
  each sum or difference rounded to the nearest float. When both submissions return a
  ticket nothing else is requested, the two tickets are tracked and the state is
  OPEN_BRACKETED. At E = 100 and A = 2 the prices are 97 and 106.
\<close>

theorem bracket_price_derivation:
  assumes "Status ev = Filled"
    and "GetOrderById h (OrderId ev) = Some ord"
    and "Symbol ord = spy_Symbol" and "Type ord = Market"
    and "stop_loss_order_ticket s = None" and "profit_target_order_ticket s = None"
    and "IsReady (atr h)" and "0 < Current_Value (atr h)"
  shows "(Direction ord = Buy \<and> IsLong (Portfolio_SPY h) \<longrightarrow>
           (\<exists>s' rest. OnOrderEvent h s ev =
               Inr (s', [StopMarketOrder ''SPY'' (- AbsoluteFillQuantity ev)
                           (float_sub (FillPrice ev) (float_mul 1.5 (Current_Value (atr h))))
                           ''ATR SL'',
                         LimitOrder ''SPY'' (- AbsoluteFillQuantity ev)
                           (float_add (FillPrice ev) (float_mul 3.0 (Current_Value (atr h))))
                           ''ATR PT''] @ rest)
             \<and> (StopMarketOrder_ticket h \<noteq> None \<and> LimitOrder_ticket h \<noteq> None \<longrightarrow>
                  rest = []
                  \<and> s' = \<lparr>entry_price = FillPrice ev,
                           stop_loss_order_ticket = StopMarketOrder_ticket h,
                           profit_target_order_ticket = LimitOrder_ticket h\<rparr>
                  \<and> currentState False (Portfolio_SPY h) s' = Some OPEN_BRACKETED)))
       \<and> (Direction ord = Sell \<and> IsShort (Portfolio_SPY h) \<longrightarrow>
           (\<exists>s' rest. OnOrderEvent h s ev =
               Inr (s', [StopMarketOrder ''SPY'' (AbsoluteFillQuantity ev)
                           (float_add (FillPrice ev) (float_mul 1.5 (Current_Value (atr h))))
                           ''ATR SL'',
                         LimitOrder ''SPY'' (AbsoluteFillQuantity ev)
                           (float_sub (FillPrice ev) (float_mul 3.0 (Current_Value (atr h))))
                           ''ATR PT''] @ rest)
             \<and> (StopMarketOrder_ticket h \<noteq> None \<and> LimitOrder_ticket h \<noteq> None \<longrightarrow>
                  rest = []
                  \<and> s' = \<lparr>entry_price = FillPrice ev,
                           stop_loss_order_ticket = StopMarketOrder_ticket h,
                           profit_target_order_ticket = LimitOrder_ticket h\<rparr>
                  \<and> currentState False (Portfolio_SPY h) s' = Some OPEN_BRACKETED)))
       \<and> float_sub 100 (float_mul 1.5 2) = Finite 97
       \<and> float_add 100 (float_mul 3.0 2) = Finite 106"
proof (intro conjI impI)
  assume d: "Direction ord = Buy \<and> IsLong (Portfolio_SPY h)"
  then have inv: "Invested (Portfolio_SPY h)" by (simp add: IsLong_def Invested_def)
  from d assms have "OnOrderEvent h s ev =
      Inr (PlaceStopLossAndProfitTarget h (s\<lparr>entry_price := FillPrice ev\<rparr>) Buy
             (AbsoluteFillQuantity ev) (FillPrice ev) (Current_Value (atr h)))"
    by (simp add: entry_fill_step)
  with assms(5,6,8) inv show "\<exists>s' rest. OnOrderEvent h s ev =
               Inr (s', [StopMarketOrder ''SPY'' (- AbsoluteFillQuantity ev)
                           (float_sub (FillPrice ev) (float_mul 1.5 (Current_Value (atr h))))
                           ''ATR SL'',
                         LimitOrder ''SPY'' (- AbsoluteFillQuantity ev)
                           (float_add (FillPrice ev) (float_mul 3.0 (Current_Value (atr h))))
                           ''ATR PT''] @ rest)
             \<and> (StopMarketOrder_ticket h \<noteq> None \<and> LimitOrder_ticket h \<noteq> None \<longrightarrow>
                  rest = []
                  \<and> s' = \<lparr>entry_price = FillPrice ev,
                           stop_loss_order_ticket = StopMarketOrder_ticket h,
                           profit_target_order_ticket = LimitOrder_ticket h\<rparr>
                  \<and> currentState False (Portfolio_SPY h) s' = Some OPEN_BRACKETED)"
    by (cases "StopMarketOrder_ticket h = None \<or> LimitOrder_ticket h = None")
       (auto simp: place_buy Let_def currentState_def)
next
  assume d: "Direction ord = Sell \<and> IsShort (Portfolio_SPY h)"
  then have inv: "Invested (Portfolio_SPY h)" by (simp add: IsShort_def Invested_def)
  from d assms have "OnOrderEvent h s ev =
      Inr (PlaceStopLossAndProfitTarget h (s\<lparr>entry_price := FillPrice ev\<rparr>) Sell
             (AbsoluteFillQuantity ev) (FillPrice ev) (Current_Value (atr h)))"
    by (simp add: entry_fill_step)
  with assms(5,6,8) inv show "\<exists>s' rest. OnOrderEvent h s ev =
               Inr (s', [StopMarketOrder ''SPY'' (AbsoluteFillQuantity ev)
                           (float_add (FillPrice ev) (float_mul 1.5 (Current_Value (atr h))))
                           ''ATR SL'',
                         LimitOrder ''SPY'' (AbsoluteFillQuantity ev)
                           (float_sub (FillPrice ev) (float_mul 3.0 (Current_Value (atr h))))
                           ''ATR PT''] @ rest)
             \<and> (StopMarketOrder_ticket h \<noteq> None \<and> LimitOrder_ticket h \<noteq> None \<longrightarrow>
                  rest = []
                  \<and> s' = \<lparr>entry_price = FillPrice ev,
                           stop_loss_order_ticket = StopMarketOrder_ticket h,
                           profit_target_order_ticket = LimitOrder_ticket h\<rparr>
                  \<and> currentState False (Portfolio_SPY h) s' = Some OPEN_BRACKETED)"
    by (cases "StopMarketOrder_ticket h = None \<or> LimitOrder_ticket h = None")
       (auto simp: place_sell Let_def currentState_def)
next
  show "float_sub 100 (float_mul 1.5 2) = Finite 97"
    using scenario_prices(1) by (simp add: atr_stop_multiplier_def)
next
  show "float_add 100 (float_mul 3.0 2) = Finite 106"
    using scenario_prices(2) by (simp add: atr_profit_multiplier_def)
qed

theorem bracket_price_derivation_witness:
  "OnOrderEvent host_long Initialize entry_fill =
     Inr (\<lparr>entry_price = 100, stop_loss_order_ticket = Some ticket2,
           profit_target_order_ticket = Some ticket3\<rparr>,
          [StopMarketOrder ''SPY'' (- 10) (Finite 97) ''ATR SL'',
           LimitOrder ''SPY'' (- 10) (Finite 106) ''ATR PT''])
   \<and> currentState False (Portfolio_SPY host_long)
        \<lparr>entry_price = 100, stop_loss_order_ticket = Some ticket2,
         profit_target_order_ticket = Some ticket3\<rparr> = Some OPEN_BRACKETED
   \<and> FillPrice entry_fill = 100 \<and> Current_Value (atr host_long) = 2
   \<and> IsReady (atr host_long) \<and> IsLong (Portfolio_SPY host_long)
   \<and> StopMarketOrder_ticket host_long \<noteq> None \<and> LimitOrder_ticket host_long \<noteq> None
   \<and> GetOrderById host_long (OrderId entry_fill)
       = Some \<lparr>Symbol = ''SPY'', Type = Market, Direction = Buy\<rparr>"
proof -
  have ord: "GetOrderById host_long (OrderId entry_fill)
       = Some \<lparr>Symbol = ''SPY'', Type = Market, Direction = Buy\<rparr>"
    by (simp add: scenario_defs)
  have facts: "Status entry_fill = Filled"
    "Symbol \<lparr>Symbol = ''SPY'', Type = Market, Direction = Buy\<rparr> = spy_Symbol"
    "Type \<lparr>Symbol = ''SPY'', Type = Market, Direction = Buy\<rparr> = Market"
    "stop_loss_order_ticket Initialize = None" "profit_target_order_ticket Initialize = None"
    "IsReady (atr host_long)" "0 < Current_Value (atr host_long)"
    by (simp_all add: scenario_defs Initialize_def spy_Symbol_def)
  have vals: "FillPrice entry_fill = 100" "Current_Value (atr host_long) = 2"
    "AbsoluteFillQuantity entry_fill = 10"
    "StopMarketOrder_ticket host_long = Some ticket2"
    "LimitOrder_ticket host_long = Some ticket3"
    by (simp_all add: scenario_defs AbsoluteFillQuantity_def)
  have long: "IsLong (Portfolio_SPY host_long)"
    "Direction \<lparr>Symbol = ''SPY'', Type = Market, Direction = Buy\<rparr> = Buy"
    by (simp_all add: scenario_defs IsLong_def)
  note inst = bracket_price_derivation [OF facts(1) ord facts(2-7)]
  from inst long obtain s' rest where
    run: "OnOrderEvent host_long Initialize entry_fill =
        Inr (s', [StopMarketOrder ''SPY'' (- AbsoluteFillQuantity entry_fill)
                    (float_sub (FillPrice entry_fill)
                       (float_mul 1.5 (Current_Value (atr host_long)))) ''ATR SL'',
                  LimitOrder ''SPY'' (- AbsoluteFillQuantity entry_fill)
                    (float_add (FillPrice entry_fill)
                       (float_mul 3.0 (Current_Value (atr host_long)))) ''ATR PT''] @ rest)"
    and st: "StopMarketOrder_ticket host_long \<noteq> None \<and> LimitOrder_ticket host_long \<noteq> None \<longrightarrow>
        rest = []
        \<and> s' = \<lparr>entry_price = FillPrice entry_fill,
                 stop_loss_order_ticket = StopMarketOrder_ticket host_long,
                 profit_target_order_ticket = LimitOrder_ticket host_long\<rparr>
        \<and> currentState False (Portfolio_SPY host_long) s' = Some OPEN_BRACKETED"
    by blast
  from inst have p: "float_sub 100 (float_mul 1.5 2) = Finite 97"
    "float_add 100 (float_mul 3.0 2) = Finite 106"
    by blast+
  from st vals have s': "rest = []"
    "s' = \<lparr>entry_price = 100, stop_loss_order_ticket = Some ticket2,
           profit_target_order_ticket = Some ticket3\<rparr>"
    "currentState False (Portfolio_SPY host_long) s' = Some OPEN_BRACKETED"
    by auto
  from run have "OnOrderEvent host_long Initialize entry_fill =
     Inr (\<lparr>entry_price = 100, stop_loss_order_ticket = Some ticket2,
           profit_target_order_ticket = Some ticket3\<rparr>,
          [StopMarketOrder ''SPY'' (- 10) (Finite 97) ''ATR SL'',
           LimitOrder ''SPY'' (- 10) (Finite 106) ''ATR PT''])"
    unfolding vals s' p by simp
  with s'(2,3) vals facts(6) long(1) ord show ?thesis by simp
qed

text \<open>
  C7. For an entry fill that places the bracket, the stop order and the limit order
  carry the same quantity: the absolute filled quantity of the event, negated for a Buy
  entry and as it is for a Sell entry. The holding is read only to see that it matches
  the direction: any other holding that matches gives the same result.
\<close>

theorem closing_quantity_from_fill:
  assumes "Status ev = Filled"
    and "GetOrderById h (OrderId ev) = Some ord"
    and "Symbol ord = spy_Symbol" and "Type ord = Market"
    and "stop_loss_order_ticket s = None" and "profit_target_order_ticket s = None"
    and "(Direction ord = Buy \<and> IsLong (Portfolio_SPY h)) \<or>
         (Direction ord = Sell \<and> IsShort (Portfolio_SPY h))"
    and "IsReady (atr h)" and "0 < Current_Value (atr h)"
  shows "(\<exists>s' stop_price target_price rest. OnOrderEvent h s ev =
            Inr (s', [StopMarketOrder ''SPY''
                        (if Direction ord = Buy then - \<bar>FillQuantity ev\<bar> else \<bar>FillQuantity ev\<bar>)
                        stop_price ''ATR SL'',
                      LimitOrder ''SPY''
                        (if Direction ord = Buy then - \<bar>FillQuantity ev\<bar> else \<bar>FillQuantity ev\<bar>)
                        target_price ''ATR PT''] @ rest))
       \<and> (FillQuantity ev \<noteq> 0 \<longrightarrow>
            (if Direction ord = Buy then - \<bar>FillQuantity ev\<bar> < 0 else 0 < \<bar>FillQuantity ev\<bar>))
       \<and> (\<forall>p. (Direction ord = Buy \<and> IsLong p) \<or> (Direction ord = Sell \<and> IsShort p) \<longrightarrow>
              OnOrderEvent (h\<lparr>Portfolio_SPY := p\<rparr>) s ev = OnOrderEvent h s ev)"
proof (intro conjI allI impI)
  have step: "OnOrderEvent h s ev =
      Inr (PlaceStopLossAndProfitTarget h (s\<lparr>entry_price := FillPrice ev\<rparr>) (Direction ord)
             (AbsoluteFillQuantity ev) (FillPrice ev) (Current_Value (atr h)))"
    using assms by (simp add: entry_fill_step)
  from assms(7) have "Direction ord = Buy \<or> Direction ord = Sell" by blast
  then show "\<exists>s' stop_price target_price rest. OnOrderEvent h s ev =
            Inr (s', [StopMarketOrder ''SPY''
                        (if Direction ord = Buy then - \<bar>FillQuantity ev\<bar> else \<bar>FillQuantity ev\<bar>)
                        stop_price ''ATR SL'',
                      LimitOrder ''SPY''
                        (if Direction ord = Buy then - \<bar>FillQuantity ev\<bar> else \<bar>FillQuantity ev\<bar>)
                        target_price ''ATR PT''] @ rest)"
    using assms(9) step
    by (auto simp: place_buy place_sell Let_def AbsoluteFillQuantity_def)
next
  assume "FillQuantity ev \<noteq> 0"
  then show "if Direction ord = Buy then - \<bar>FillQuantity ev\<bar> < 0 else 0 < \<bar>FillQuantity ev\<bar>"
    by simp
next
  fix p
  assume m: "(Direction ord = Buy \<and> IsLong p) \<or> (Direction ord = Sell \<and> IsShort p)"
  have "OnOrderEvent (h\<lparr>Portfolio_SPY := p\<rparr>) s ev =
      Inr (PlaceStopLossAndProfitTarget (h\<lparr>Portfolio_SPY := p\<rparr>)
             (s\<lparr>entry_price := FillPrice ev\<rparr>) (Direction ord)
             (AbsoluteFillQuantity ev) (FillPrice ev) (Current_Value (atr h)))"
    using assms(1-6,8) m entry_fill_step [of ev "h\<lparr>Portfolio_SPY := p\<rparr>" ord s] by simp
  moreover have "OnOrderEvent h s ev =
      Inr (PlaceStopLossAndProfitTarget h (s\<lparr>entry_price := FillPrice ev\<rparr>) (Direction ord)
             (AbsoluteFillQuantity ev) (FillPrice ev) (Current_Value (atr h)))"
    using assms by (simp add: entry_fill_step)
  ultimately show "OnOrderEvent (h\<lparr>Portfolio_SPY := p\<rparr>) s ev = OnOrderEvent h s ev"
    by (simp only: place_ignores_holding)
qed

theorem closing_quantity_from_fill_witness:
  "(\<exists>s' stop_price target_price rest. OnOrderEvent host_long Initialize entry_fill =
       Inr (s', [StopMarketOrder ''SPY'' (- 10) stop_price ''ATR SL'',
                 LimitOrder ''SPY'' (- 10) target_price ''ATR PT''] @ rest))
   \<and> OnOrderEvent (host_long\<lparr>Portfolio_SPY := \<lparr>Quantity = 25\<rparr>\<rparr>) Initialize entry_fill
       = OnOrderEvent host_long Initialize entry_fill
   \<and> FillQuantity entry_fill = 10 \<and> Quantity (Portfolio_SPY host_long) = 10
   \<and> IsReady (atr host_long) \<and> 0 < Current_Value (atr host_long)
   \<and> GetOrderById host_long (OrderId entry_fill)
       = Some \<lparr>Symbol = ''SPY'', Type = Market, Direction = Buy\<rparr>"
proof -
  have ord: "GetOrderById host_long (OrderId entry_fill)
       = Some \<lparr>Symbol = ''SPY'', Type = Market, Direction = Buy\<rparr>"
    by (simp add: scenario_defs)
  have facts: "Status entry_fill = Filled"
    "Symbol \<lparr>Symbol = ''SPY'', Type = Market, Direction = Buy\<rparr> = spy_Symbol"
    "Type \<lparr>Symbol = ''SPY'', Type = Market, Direction = Buy\<rparr> = Market"
    "stop_loss_order_ticket Initialize = None" "profit_target_order_ticket Initialize = None"
    "(Direction \<lparr>Symbol = ''SPY'', Type = Market, Direction = Buy\<rparr> = Buy
        \<and> IsLong (Portfolio_SPY host_long)) \<or>
     (Direction \<lparr>Symbol = ''SPY'', Type = Market, Direction = Buy\<rparr> = Sell
        \<and> IsShort (Portfolio_SPY host_long))"
    "IsReady (atr host_long)" "0 < Current_Value (atr host_long)"
    by (simp_all add: scenario_defs Initialize_def IsLong_def spy_Symbol_def)
  have q: "FillQuantity entry_fill = 10" "Quantity (Portfolio_SPY host_long) = 10"
    by (simp_all add: scenario_defs)
  have long25: "IsLong \<lparr>Quantity = 25\<rparr>" by (simp add: IsLong_def)
  note inst = closing_quantity_from_fill [OF facts(1) ord facts(2-8)]
  from inst have a: "\<exists>s' stop_price target_price rest.
      OnOrderEvent host_long Initialize entry_fill =
       Inr (s', [StopMarketOrder ''SPY'' (- 10) stop_price ''ATR SL'',
                 LimitOrder ''SPY'' (- 10) target_price ''ATR PT''] @ rest)"
    by (simp add: q)
  from inst long25 have b:
    "OnOrderEvent (host_long\<lparr>Portfolio_SPY := \<lparr>Quantity = 25\<rparr>\<rparr>) Initialize entry_fill
       = OnOrderEvent host_long Initialize entry_fill"
    by simp
  from a b q facts(7,8) ord show ?thesis by blast
qed

text \<open>
  C1. In a state that tracks both tickets, of distinct orders, whichever of the stop
  fill and the target fill is processed first cancels the other leg and resets the
  tracking; the one processed second finds both ticket fields absent, changes nothing
  and requests nothing. So at most one of the two is honoured, in either order of
  delivery.
\<close>

theorem oco_exclusivity:
  assumes "stop_loss_order_ticket s = Some ts"
    and "profit_target_order_ticket s = Some tt"
    and "ticket_OrderId ts \<noteq> ticket_OrderId tt"
    and "Status stop_ev = Filled" and "OrderId stop_ev = ticket_OrderId ts"
    and "Status target_ev = Filled" and "OrderId target_ev = ticket_OrderId tt"
    and "GetOrderById h1 (ticket_OrderId ts) = Some stop_order"
    and "GetOrderById h2 (ticket_OrderId ts) = Some stop_order"
    and "GetOrderById h1 (ticket_OrderId tt) = Some target_order"
    and "GetOrderById h2 (ticket_OrderId tt) = Some target_order"
    and "Type stop_order = StopMarket" and "Type target_order = Limit"
  shows "OnOrderEvent h1 s stop_ev = Inr (ResetTradeTracking s, [Cancel tt ''Stop Loss Hit''])
       \<and> OnOrderEvent h2 (ResetTradeTracking s) target_ev = Inr (ResetTradeTracking s, [])
       \<and> OnOrderEvent h1 s target_ev = Inr (ResetTradeTracking s, [Cancel ts ''Profit Target Hit''])
       \<and> OnOrderEvent h2 (ResetTradeTracking s) stop_ev = Inr (ResetTradeTracking s, [])"
proof (intro conjI)
  show "OnOrderEvent h1 s stop_ev = Inr (ResetTradeTracking s, [Cancel tt ''Stop Loss Hit''])"
    using assms(1,2,4,5,8) by (simp add: OnOrderEvent_def ticket_matches_def)
  show "OnOrderEvent h1 s target_ev = Inr (ResetTradeTracking s, [Cancel ts ''Profit Target Hit''])"
    using assms(1,2,3,6,7,10) by (simp add: OnOrderEvent_def ticket_matches_def)
  show "OnOrderEvent h2 (ResetTradeTracking s) target_ev = Inr (ResetTradeTracking s, [])"
    using assms(6,7,11,13) by (intro cleared_fill_step [of _ _ target_order]) (simp_all add: reset_fields)
  show "OnOrderEvent h2 (ResetTradeTracking s) stop_ev = Inr (ResetTradeTracking s, [])"
    using assms(4,5,9,12) by (intro cleared_fill_step [of _ _ stop_order]) (simp_all add: reset_fields)
qed

theorem oco_exclusivity_witness:
  "OnOrderEvent host_long bracketed stop_fill = Inr (Initialize, [Cancel ticket3 ''Stop Loss Hit''])
   \<and> OnOrderEvent host_flat Initialize target_fill = Inr (Initialize, [])
   \<and> OnOrderEvent host_long bracketed target_fill
       = Inr (Initialize, [Cancel ticket2 ''Profit Target Hit''])
   \<and> OnOrderEvent host_flat Initialize stop_fill = Inr (Initialize, [])
   \<and> stop_loss_order_ticket bracketed = Some ticket2
   \<and> profit_target_order_ticket bracketed = Some ticket3"
  using oco_exclusivity
    [of bracketed ticket2 ticket3 stop_fill target_fill host_long
        "\<lparr>Symbol = ''SPY'', Type = StopMarket, Direction = Sell\<rparr>" host_flat
        "\<lparr>Symbol = ''SPY'', Type = Limit, Direction = Sell\<rparr>"]
  by (simp add: scenario_defs Initialize_def ResetTradeTracking_def)

text \<open>
  C9. In a state that tracks both tickets, a tick on which the RSI exit fires (long with
  RSI above the exit level, or short with RSI below it) requests the liquidation of SPY,
  cancels each bracket leg that is still active, and leaves the entry price at 0 and both
  ticket fields absent, all in the one call. A fill of either leg processed afterwards
  changes nothing and requests nothing.
\<close>

theorem rsi_exit_clears_bracket:
  assumes "\<not> IsWarmingUp h" and "data ''SPY'' = Some (Some bar)"
    and "IsReady (rsi h)" and "IsReady (atr h)" and "IsReady (kr h)"
    and "(IsLong (Portfolio_SPY h) \<and> Current_Value (rsi h) > rsi_exit_level) \<or>
         (IsShort (Portfolio_SPY h) \<and> Current_Value (rsi h) < rsi_exit_level)"
    and "stop_loss_order_ticket s = Some ts"
    and "profit_target_order_ticket s = Some tt"
  shows "OnData h s data =
           (\<lparr>entry_price = 0, stop_loss_order_ticket = None, profit_target_order_ticket = None\<rparr>,
            Liquidate ''SPY'' ''RSI Exit''
              # (if IsActive h ts then [Cancel ts ''Position Closed Manually''] else [])
              @ (if IsActive h tt then [Cancel tt ''Position Closed Manually''] else []))
       \<and> (\<forall>h' ev ord.
             Status ev = Filled
             \<and> (OrderId ev = ticket_OrderId ts \<or> OrderId ev = ticket_OrderId tt)
             \<and> GetOrderById h' (OrderId ev) = Some ord \<and> Type ord \<noteq> Market
             \<longrightarrow> OnOrderEvent h' (fst (OnData h s data)) ev = Inr (fst (OnData h s data), []))"
proof -
  from assms(6) have inv: "Invested (Portfolio_SPY h)"
    by (auto simp: Invested_def IsLong_def IsShort_def)
  have r: "ResetTradeTracking s =
      \<lparr>entry_price = 0, stop_loss_order_ticket = None, profit_target_order_ticket = None\<rparr>"
    by (simp add: ResetTradeTracking_def)
  have c: "CancelStopLossAndProfitTarget h s =
      (ResetTradeTracking s,
       (if IsActive h ts then [Cancel ts ''Position Closed Manually''] else [])
       @ (if IsActive h tt then [Cancel tt ''Position Closed Manually''] else []))"
    using assms(7,8) by (simp add: CancelStopLossAndProfitTarget_def)
  have d: "OnData h s data =
           (\<lparr>entry_price = 0, stop_loss_order_ticket = None, profit_target_order_ticket = None\<rparr>,
            Liquidate ''SPY'' ''RSI Exit''
              # (if IsActive h ts then [Cancel ts ''Position Closed Manually''] else [])
              @ (if IsActive h tt then [Cancel tt ''Position Closed Manually''] else []))"
    using assms(1-6) inv unfolding OnData_def c r by auto
  show ?thesis
  proof (intro conjI allI impI)
    show "OnData h s data =
           (\<lparr>entry_price = 0, stop_loss_order_ticket = None, profit_target_order_ticket = None\<rparr>,
            Liquidate ''SPY'' ''RSI Exit''
              # (if IsActive h ts then [Cancel ts ''Position Closed Manually''] else [])
              @ (if IsActive h tt then [Cancel tt ''Position Closed Manually''] else []))"
      by (rule d)
  next
    fix h' :: host and ev :: OrderEvent and ord :: Order
    assume "Status ev = Filled
             \<and> (OrderId ev = ticket_OrderId ts \<or> OrderId ev = ticket_OrderId tt)
             \<and> GetOrderById h' (OrderId ev) = Some ord \<and> Type ord \<noteq> Market"
    then show "OnOrderEvent h' (fst (OnData h s data)) ev = Inr (fst (OnData h s data), [])"
      unfolding d by (intro cleared_fill_step [of _ _ ord]) simp_all
  qed
qed

theorem rsi_exit_clears_bracket_witness:
  "OnData (host_long\<lparr>rsi := \<lparr>IsReady = True, Current_Value = 55\<rparr>\<rparr>) bracketed bar_100 =
     (Initialize,
      [Liquidate ''SPY'' ''RSI Exit'', Cancel ticket2 ''Position Closed Manually'',
       Cancel ticket3 ''Position Closed Manually''])
   \<and> OnOrderEvent host_flat Initialize stop_fill = Inr (Initialize, [])
   \<and> IsLong (Portfolio_SPY (host_long\<lparr>rsi := \<lparr>IsReady = True, Current_Value = 55\<rparr>\<rparr>))
   \<and> stop_loss_order_ticket bracketed = Some ticket2
   \<and> profit_target_order_ticket bracketed = Some ticket3"
  using rsi_exit_clears_bracket
    [of "host_long\<lparr>rsi := \<lparr>IsReady = True, Current_Value = 55\<rparr>\<rparr>" bar_100
        "\<lparr>Close = 100\<rparr>" bracketed ticket2 ticket3]
  by (simp add: scenario_defs Initialize_def IsLong_def rsi_exit_level_def
      OnOrderEvent_def ticket_matches_def)


text \<open>
  C2. The entry price is 0 and both ticket fields are absent after each way into FLAT.
  On the sizing failure the source records the fill price, requests the liquidation and
  returns without resetting: the entry price keeps the fill price, for an ATR that is
  not ready and for an ATR of 0 alike.
\<close>

theorem sizing_failure_keeps_entry_price:
  "OnOrderEvent host_atr_not_ready Initialize entry_fill_50 =
     Inr (\<lparr>entry_price = 50, stop_loss_order_ticket = None,
           profit_target_order_ticket = None\<rparr>,
          [Liquidate ''SPY'' ''ATR Not Ready on Fill''])
   \<and> OnOrderEvent host_atr_zero Initialize entry_fill_50 =
     Inr (\<lparr>entry_price = 50, stop_loss_order_ticket = None,
           profit_target_order_ticket = None\<rparr>,
          [Liquidate ''SPY'' ''Invalid ATR for SL/PT''])"
  by (simp add: scenario_defs model_defs scenario_prices)

text \<open>
  C3. When exactly one bracket submission returns no ticket, the position is liquidated
  and the tracking is reset, so no single leg stays tracked. The source makes no cancel
  request for the leg that was accepted: with the limit order rejected, the requests are
  the two submissions and the liquidation, and the accepted stop order is not cancelled.
\<close>

theorem partial_bracket_failure_requests:
  "OnOrderEvent host_limit_rejected Initialize entry_fill =
     Inr (\<lparr>entry_price = 0, stop_loss_order_ticket = None,
           profit_target_order_ticket = None\<rparr>,
          [StopMarketOrder ''SPY'' (- 10) (Finite 97) ''ATR SL'',
           LimitOrder ''SPY'' (- 10) (Finite 106) ''ATR PT'',
           Liquidate ''SPY'' ''SL/PT Creation Failed''])
   \<and> StopMarketOrder_ticket host_limit_rejected = Some ticket2
   \<and> LimitOrder_ticket host_limit_rejected = None"
  by (simp add: scenario_defs model_defs scenario_prices)

text \<open>
  C5, as stated: a tick with an entry signal while an entry order is pending submits
  nothing. The source keeps no record of a submitted entry order: after the first tick
  has submitted the entry and before it is filled, the same signal submits a second one.
\<close>

theorem entry_repeated_while_pending:
  "OnData host_flat Initialize bar_100 = (Initialize, [MarketOrder ''SPY'' 950])
   \<and> \<not> Invested (Portfolio_SPY host_flat)
   \<and> currentState True (Portfolio_SPY host_flat) (fst (OnData host_flat Initialize bar_100))
       = Some ENTRY_PENDING
   \<and> OnData host_flat (fst (OnData host_flat Initialize bar_100)) bar_100
       = (Initialize, [MarketOrder ''SPY'' 950])"
  by (simp add: scenario_defs model_defs scenario_prices)

text \<open>
  C5, amended. On a tick that arrives while the holding is invested (OPEN_UNBRACKETED or
  OPEN_BRACKETED) no entry market order is submitted, whatever the indicators say, and
  unless the RSI exit fires for the held direction nothing is requested and no tracking
  field changes. While the holding is not invested (FLAT or ENTRY_PENDING) a tick changes
  no tracking field.
\<close>

theorem no_entry_while_invested:
  "(Invested (Portfolio_SPY h) \<longrightarrow>
      (\<forall>sym q. MarketOrder sym q \<notin> set (snd (OnData h s data)))
      \<and> (\<not> ((IsLong (Portfolio_SPY h) \<and> Current_Value (rsi h) > rsi_exit_level) \<or>
              (IsShort (Portfolio_SPY h) \<and> Current_Value (rsi h) < rsi_exit_level))
           \<longrightarrow> OnData h s data = (s, [])))
   \<and> (\<not> Invested (Portfolio_SPY h) \<longrightarrow> fst (OnData h s data) = s)"
proof (intro conjI impI allI)
  fix sym q
  assume "Invested (Portfolio_SPY h)"
  then show "MarketOrder sym q \<notin> set (snd (OnData h s data))"
    by (auto simp: OnData_def CancelStopLossAndProfitTarget_def Let_def
        split: option.splits if_splits)
next
  assume "Invested (Portfolio_SPY h)"
    and "\<not> ((IsLong (Portfolio_SPY h) \<and> Current_Value (rsi h) > rsi_exit_level) \<or>
            (IsShort (Portfolio_SPY h) \<and> Current_Value (rsi h) < rsi_exit_level))"
  then show "OnData h s data = (s, [])"
    by (auto simp: OnData_def Let_def split: option.splits)
next
  assume "\<not> Invested (Portfolio_SPY h)"
  then show "fst (OnData h s data) = s"
    by (auto simp: OnData_def Let_def split: option.splits)
qed

theorem no_entry_while_invested_witness:
  "Invested (Portfolio_SPY host_long)
   \<and> Current_Value (rsi host_long) < rsi_oversold
   \<and> currentState False (Portfolio_SPY host_long) Initialize = Some OPEN_UNBRACKETED
   \<and> OnData host_long Initialize bar_100 = (Initialize, [])
   \<and> MarketOrder ''SPY'' 950 \<notin> set (snd (OnData host_long Initialize bar_100))"
  using no_entry_while_invested [of host_long Initialize bar_100]
  by (simp add: scenario_defs model_defs scenario_prices)


text \<open>
  C8, as stated: processing an event twice gives the same tracking state and the same
  requests as processing it once. An entry fill whose bracket could not be placed leaves
  both ticket fields absent, so the same event passes the guard again: with the stop
  submission rejected, the second processing submits both bracket orders and requests the
  liquidation a second time.
\<close>

theorem entry_fill_redelivery_repeats_requests:
  "OnOrderEvent host_stop_rejected Initialize entry_fill =
     Inr (Initialize,
          [StopMarketOrder ''SPY'' (- 10) (Finite 97) ''ATR SL'',
           LimitOrder ''SPY'' (- 10) (Finite 106) ''ATR PT'',
           Liquidate ''SPY'' ''SL/PT Creation Failed''])
   \<and> OnOrderEvent_twice host_stop_rejected Initialize entry_fill =
     Inr (Initialize,
          [StopMarketOrder ''SPY'' (- 10) (Finite 97) ''ATR SL'',
           LimitOrder ''SPY'' (- 10) (Finite 106) ''ATR PT'',
           Liquidate ''SPY'' ''SL/PT Creation Failed'',
           StopMarketOrder ''SPY'' (- 10) (Finite 97) ''ATR SL'',
           LimitOrder ''SPY'' (- 10) (Finite 106) ''ATR PT'',
           Liquidate ''SPY'' ''SL/PT Creation Failed''])
   \<and> OnOrderEvent_twice host_stop_rejected Initialize entry_fill
       \<noteq> OnOrderEvent host_stop_rejected Initialize entry_fill"
  by (simp add: OnOrderEvent_twice_def scenario_defs model_defs scenario_prices)

text \<open>
  C8, amended. When the tickets in play name bracket orders, processing the same event a
  second time, the host answering as before, leaves the tracking state reached by the
  first processing as it is. The second processing makes no request, except for a Filled
  event of a market order of SPY that left both ticket fields absent (an entry fill that
  ended in a liquidation): there it repeats the requests of the first. A Filled event of
  an order that is not a market order, arriving while both ticket fields are absent,
  changes nothing and requests nothing.
\<close>

theorem order_event_redelivery:
  assumes "tickets_name_bracket_orders h s"
    and "OnOrderEvent h s ev = Inr (s1, r1)"
  shows "(\<exists>r2. OnOrderEvent h s1 ev = Inr (s1, r2)
            \<and> (r2 = [] \<or>
                (r2 = r1 \<and> Status ev = Filled
                 \<and> stop_loss_order_ticket s1 = None \<and> profit_target_order_ticket s1 = None
                 \<and> (\<exists>ord. GetOrderById h (OrderId ev) = Some ord
                        \<and> Symbol ord = spy_Symbol \<and> Type ord = Market))))
       \<and> (Status ev = Filled
            \<and> stop_loss_order_ticket s = None \<and> profit_target_order_ticket s = None
            \<and> (\<forall>ord. GetOrderById h (OrderId ev) = Some ord \<longrightarrow> Type ord \<noteq> Market)
          \<longrightarrow> s1 = s \<and> r1 = [])"
proof -
  have cleared: "Status ev = Filled
            \<and> stop_loss_order_ticket s = None \<and> profit_target_order_ticket s = None
            \<and> (\<forall>ord. GetOrderById h (OrderId ev) = Some ord \<longrightarrow> Type ord \<noteq> Market)
          \<longrightarrow> s1 = s \<and> r1 = []"
  proof
  assume a: "Status ev = Filled
            \<and> stop_loss_order_ticket s = None \<and> profit_target_order_ticket s = None
            \<and> (\<forall>ord. GetOrderById h (OrderId ev) = Some ord \<longrightarrow> Type ord \<noteq> Market)"
  with assms(2) obtain ord where ord: "GetOrderById h (OrderId ev) = Some ord"
    by (cases "GetOrderById h (OrderId ev)") (auto simp: OnOrderEvent_def)
  with a have "Type ord \<noteq> Market" by blast
  with a ord have "OnOrderEvent h s ev = Inr (s, [])"
    by (intro cleared_fill_step [of _ _ ord]) simp_all
  with assms(2) show "s1 = s \<and> r1 = []" by simp
  qed
  let ?goal = "\<exists>r2. OnOrderEvent h s1 ev = Inr (s1, r2)
            \<and> (r2 = [] \<or>
                (r2 = r1 \<and> Status ev = Filled
                 \<and> stop_loss_order_ticket s1 = None \<and> profit_target_order_ticket s1 = None
                 \<and> (\<exists>ord. GetOrderById h (OrderId ev) = Some ord
                        \<and> Symbol ord = spy_Symbol \<and> Type ord = Market)))"
  consider (filled) "Status ev = Filled" | (canceled) "Status ev = Canceled"
    | (failed) "Status ev \<in> {Invalid, CancelPending, Error}"
    | (other) "Status ev \<noteq> Filled" "Status ev \<noteq> Canceled"
        "Status ev \<notin> {Invalid, CancelPending, Error}"
    by blast
  then have again: ?goal
  proof cases
    case canceled
    then show ?thesis using assms(2) canceled_step_again by blast
  next
    case failed
    then show ?thesis using assms(2) failed_step_again by blast
  next
    case other
    then show ?thesis using assms(2) other_step_again by blast
  next
    case filled
    with assms(2) obtain ord where ord: "GetOrderById h (OrderId ev) = Some ord"
      by (cases "GetOrderById h (OrderId ev)") (auto simp: OnOrderEvent_def)
    show ?thesis
    proof (cases "stop_loss_order_ticket s = None \<and> profit_target_order_ticket s = None")
      case False
      with filled ord assms show ?thesis using leg_fill_step_again by blast
    next
      case absent: True
      show ?thesis
      proof (cases "Symbol ord = spy_Symbol \<and> Type ord = Market \<and>
            ((Direction ord = Buy \<and> IsLong (Portfolio_SPY h)) \<or>
             (Direction ord = Sell \<and> IsShort (Portfolio_SPY h)))")
        case False
        with filled ord absent assms(2) have "s1 = s \<and> r1 = []"
          by (intro unmatched_fill_step_again [of ev h ord s s1 r1]) simp_all
        with assms(2) show ?thesis by simp
      next
        case entry: True
        note step = entry_fill_step [of ev h ord, OF filled ord]
        show ?thesis
        proof (cases "IsReady (atr h)")
          case False
          with entry absent assms(2) step [of s]
          have s1: "s1 = s\<lparr>entry_price := FillPrice ev\<rparr>"
            and r1: "r1 = [Liquidate ''SPY'' ''ATR Not Ready on Fill'']"
            by simp_all
          from False entry absent step [of s1] have
            "OnOrderEvent h s1 ev = Inr (s1, r1)"
            by (simp add: s1 r1)
          with filled ord entry absent show ?thesis by (simp add: s1)
        next
          case True
          with entry absent assms(2) step [of s]
          have pl: "PlaceStopLossAndProfitTarget h (s\<lparr>entry_price := FillPrice ev\<rparr>)
                      (Direction ord) (AbsoluteFillQuantity ev) (FillPrice ev)
                      (Current_Value (atr h)) = (s1, r1)"
            by simp
          from place_tickets [OF pl] absent
          consider (none) "stop_loss_order_ticket s1 = None"
                          "profit_target_order_ticket s1 = None"
            | (both) "stop_loss_order_ticket s1 = StopMarketOrder_ticket h"
                     "profit_target_order_ticket s1 = LimitOrder_ticket h"
                     "StopMarketOrder_ticket h \<noteq> None" "LimitOrder_ticket h \<noteq> None"
            by auto
          then show ?thesis
          proof cases
            case none
            from place_again [OF pl] absent none have
              "PlaceStopLossAndProfitTarget h (s1\<lparr>entry_price := FillPrice ev\<rparr>)
                 (Direction ord) (AbsoluteFillQuantity ev) (FillPrice ev)
                 (Current_Value (atr h)) = (s1, r1)"
              by simp
            with True entry none step [of s1] have "OnOrderEvent h s1 ev = Inr (s1, r1)"
              by simp
            with filled ord entry none show ?thesis by simp
          next
            case both
            from both(3,4) obtain a b where ab: "StopMarketOrder_ticket h = Some a"
              "LimitOrder_ticket h = Some b" by auto
            from assms(1) ab have
              "case GetOrderById h (ticket_OrderId a) of None \<Rightarrow> True
               | Some ord \<Rightarrow> Type ord \<noteq> Market"
              "case GetOrderById h (ticket_OrderId b) of None \<Rightarrow> True
               | Some ord \<Rightarrow> Type ord \<noteq> Market"
              by (simp_all add: tickets_name_bracket_orders_def)
            with ord entry have "OrderId ev \<noteq> ticket_OrderId a" "OrderId ev \<noteq> ticket_OrderId b"
              by auto
            with filled ord both(1,2) ab have "OnOrderEvent h s1 ev = Inr (s1, [])"
              by (simp add: OnOrderEvent_def ticket_matches_def)
            then show ?thesis by simp
          qed
        qed
      qed
    qed
  qed
  from again cleared show ?thesis by (rule conjI)
qed

theorem order_event_redelivery_witness:
  "tickets_name_bracket_orders host_long bracketed
   \<and> OnOrderEvent host_long bracketed stop_fill
       = Inr (Initialize, [Cancel ticket3 ''Stop Loss Hit''])
   \<and> OnOrderEvent host_long Initialize stop_fill = Inr (Initialize, [])"
proof -
  have c: "tickets_name_bracket_orders host_long bracketed"
    by (simp add: tickets_name_bracket_orders_def scenario_defs)
  have r: "OnOrderEvent host_long bracketed stop_fill
       = Inr (Initialize, [Cancel ticket3 ''Stop Loss Hit''])"
    by (simp add: scenario_defs model_defs scenario_prices)
  from order_event_redelivery [OF c r]
  have "\<exists>r2. OnOrderEvent host_long Initialize stop_fill = Inr (Initialize, r2)
          \<and> (r2 = [] \<or> r2 = [Cancel ticket3 ''Stop Loss Hit''] \<and>
               (\<exists>ord. GetOrderById host_long (OrderId stop_fill) = Some ord
                  \<and> Symbol ord = spy_Symbol \<and> Type ord = Market))"
    by blast
  then have "OnOrderEvent host_long Initialize stop_fill = Inr (Initialize, [])"
    by (auto simp: scenario_defs)
  with c r show ?thesis by blast
qed

end
